theory Spec2Isabelle
  imports Main
begin

section \<open>Values that cross the service boundary\<close>

text \<open>
  A thrown value. \<open>HttpException msg status\<close> is the NestJS exception (and its
  subclasses) carrying a numeric \<open>status\<close>; \<open>JsError msg\<close> is any other thrown value
  (a \<open>TypeError\<close>, a library error), on which \<open>error.status\<close> is \<open>undefined\<close>.
\<close>

datatype exn = HttpException string nat | JsError string

fun status :: "exn \<Rightarrow> nat option" where
  "status (HttpException msg st) = Some st"
| "status (JsError msg) = None"

text \<open>The members of \<open>HttpStatus\<close> the service names.\<close>

definition BAD_REQUEST :: nat where "BAD_REQUEST = 400"
definition UNAUTHORIZED :: nat where "UNAUTHORIZED = 401"
definition NOT_FOUND :: nat where "NOT_FOUND = 404"

text \<open>
  \<open>AccessTokenPayload\<close> / \<open>OAuthTokenPayload\<close> / \<open>Partial<AccessTokenPayload>\<close>: one
  object shape, every field possibly \<open>undefined\<close> at run time (\<open>None\<close>).
\<close>

record payload =
  userId :: "string option"
  name :: "string option"
  email :: "string option"
  iat :: "int option"
  exp :: "int option"
  permissions :: "int list option"
  roles :: "int list option"

text \<open>JavaScript truthiness of a possibly missing string: \<open>undefined\<close> and \<open>""\<close> are falsy.\<close>

fun truthy :: "string option \<Rightarrow> bool" where
  "truthy None = False"
| "truthy (Some s) = (s \<noteq> [])"

text \<open>
  Modelled from the spec: the \<open>AuthProvider\<close> enumeration of \<open>../constants\<close> is not
  among the sources; the spec gives it as \<open>enum{Google, \<dots>}\<close>. Every tag other than
  \<open>Google\<close> is \<open>OtherProvider\<close>.
\<close>

datatype AuthProvider = Google | OtherProvider string

text \<open>The user document: \<open>{_id, name, email, refreshToken: string | null}\<close>.\<close>

record user =
  user_id :: string
  user_name :: "string option"
  user_email :: "string option"
  user_refreshToken :: "string option"

text \<open>The object \<open>{ accessToken, refreshToken }\<close> the operations return.\<close>

record token_pair =
  pair_accessToken :: string
  pair_refreshToken :: string

section \<open>Collaborators\<close>

text \<open>
  \<open>JwtService\<close> (library): \<open>sign(payload, {secret})\<close> may throw (no secret),
  \<open>verify(token, {secret})\<close> throws on a bad or expired token, \<open>decode(token)\<close> parses
  without checking and yields \<open>null\<close> when it cannot.
\<close>

record JwtService =
  sign :: "payload \<Rightarrow> string option \<Rightarrow> exn + string"
  verify :: "string \<Rightarrow> string option \<Rightarrow> exn + payload"
  decode :: "string option \<Rightarrow> payload option"

text \<open>
  \<open>UserService\<close> (\<open>../users/user.service\<close>, not among the sources): taken as a
  parameter over the user collection \<open>'db\<close>. Lookups read the collection; \<open>create\<close>
  and \<open>saveRefreshToken\<close> return the collection they leave behind, also when they throw.
\<close>

record 'db UserService =
  getById :: "'db \<Rightarrow> string option \<Rightarrow> exn + user"
  getByEmail :: "'db \<Rightarrow> string option \<Rightarrow> exn + user"
  create :: "string option \<Rightarrow> string option \<Rightarrow> 'db \<Rightarrow> (exn + user) \<times> 'db"
  saveRefreshToken :: "string option \<Rightarrow> string option \<Rightarrow> 'db \<Rightarrow> (exn + unit) \<times> 'db"
  getUserIfRefreshTokenMatches :: "'db \<Rightarrow> string option \<Rightarrow> string option \<Rightarrow> exn + user"

text \<open>
  The injected members of \<open>AuthService\<close>. \<open>googleOauthClient\<close> stands for
  \<open>verifyIdToken({idToken, audience})\<close> followed by \<open>ticket.getPayload()\<close>, which may
  be \<open>undefined\<close>. \<open>uuid_seq n\<close> is the value the \<open>n\<close>-th call of \<open>uuidv4()\<close> returns.
\<close>

record 'db AuthService =
  configService :: "string \<Rightarrow> string option"
  jwtService :: JwtService
  userService :: "'db UserService"
  googleOauthClient :: "string \<Rightarrow> string option \<Rightarrow> exn + payload option"
  uuid_seq :: "nat \<Rightarrow> string"

text \<open>
  What an operation can change or read outside its arguments: the user collection,
  the number of \<open>uuidv4()\<close> calls made so far, and \<open>Date.now()\<close> in milliseconds.
  One operation is short against the clock: every \<open>Date.now()\<close> within it reads the
  same value. \<open>Math.floor(Date.now() / 1000)\<close> is \<open>clock w div 1000\<close>.
\<close>

record 'db world =
  db :: 'db
  uuid_calls :: nat
  clock :: int

definition uuidv4 :: "'db AuthService \<Rightarrow> 'db world \<Rightarrow> string \<times> 'db world" where
  "uuidv4 this w = (uuid_seq this (uuid_calls w), w\<lparr>uuid_calls := Suc (uuid_calls w)\<rparr>)"

section \<open>AuthService\<close>

definition getAccessToken :: "'db AuthService \<Rightarrow> 'db world \<Rightarrow> payload \<Rightarrow> exn + string" where
  "getAccessToken this w p =
     (let timestamp = clock w div 1000;
          jwtTTL = 300
      in sign (jwtService this)
           (p\<lparr>iat := Some timestamp, exp := Some (timestamp + jwtTTL)\<rparr>)
           (configService this ''JWT_SECRET''))"

definition verifyAccessToken :: "'db AuthService \<Rightarrow> string \<Rightarrow> exn + payload" where
  "verifyAccessToken this accessToken =
     (case verify (jwtService this) accessToken (configService this ''JWT_SECRET'') of
        Inl error \<Rightarrow> Inl (HttpException ''Authorization token expired'' UNAUTHORIZED)
      | Inr p \<Rightarrow> Inr p)"

text \<open>
  \<open>verifyIdToken\<close>: the \<open>switch\<close> has the single case \<open>Google\<close> and no default, so
  for any other tag the function ends without \<open>return\<close> and resolves to \<open>undefined\<close>
  (\<open>Inr None\<close>). Inside the case, destructuring an \<open>undefined\<close> ticket payload throws
  within the \<open>try\<close>.
\<close>

definition verifyIdToken :: "'db AuthService \<Rightarrow> string \<Rightarrow> AuthProvider \<Rightarrow> exn + payload option" where
  "verifyIdToken this idToken provider =
     (case provider of
        Google \<Rightarrow>
          (case googleOauthClient this idToken (configService this ''GOOGLE_CLIENT_ID'') of
             Inl error \<Rightarrow> Inl (HttpException ''idToken not valid'' UNAUTHORIZED)
           | Inr None \<Rightarrow> Inl (HttpException ''idToken not valid'' UNAUTHORIZED)
           | Inr (Some t) \<Rightarrow>
               Inr (Some \<lparr>userId = None, name = name t, email = email t, iat = None,
                          exp = None, permissions = None, roles = None\<rparr>))
      | OtherProvider tag \<Rightarrow> Inr None)"

definition silentLogin ::
  "'db AuthService \<Rightarrow> string \<Rightarrow> 'db world \<Rightarrow> (exn + token_pair) \<times> 'db world" where
  "silentLogin this accessToken w =
     (case verifyAccessToken this accessToken of
        Inl e \<Rightarrow> (Inl e, w)
      | Inr tokenPayload \<Rightarrow>
          (case uuidv4 this w of
             (refreshTok, w1) \<Rightarrow>
               (case getById (userService this) (db w1) (userId tokenPayload) of
                  Inl e \<Rightarrow> (Inl e, w1)
                | Inr u \<Rightarrow>
                    (case saveRefreshToken (userService this) (userId tokenPayload)
                            (Some refreshTok) (db w1) of
                       (Inl e, d) \<Rightarrow> (Inl e, w1\<lparr>db := d\<rparr>)
                     | (Inr x, d) \<Rightarrow>
                         (case getAccessToken this (w1\<lparr>db := d\<rparr>) tokenPayload of
                            Inl e \<Rightarrow> (Inl e, w1\<lparr>db := d\<rparr>)
                          | Inr accessTok \<Rightarrow>
                              (Inr \<lparr>pair_accessToken = accessTok,
                                    pair_refreshToken = refreshTok\<rparr>,
                               w1\<lparr>db := d\<rparr>))))))"

definition register ::
  "'db AuthService \<Rightarrow> payload \<Rightarrow> 'db world \<Rightarrow> (exn + token_pair) \<times> 'db world" where
  "register this tokenPayload w =
     (case create (userService this) (name tokenPayload) (email tokenPayload) (db w) of
        (Inl e, d) \<Rightarrow> (Inl e, w\<lparr>db := d\<rparr>)
      | (Inr u, d) \<Rightarrow>
          (case uuidv4 this (w\<lparr>db := d\<rparr>) of
             (refreshTok, w1) \<Rightarrow>
               (case getAccessToken this w1 (tokenPayload\<lparr>userId := Some (user_id u)\<rparr>) of
                  Inl e \<Rightarrow> (Inl e, w1)
                | Inr accessTok \<Rightarrow>
                    (case saveRefreshToken (userService this) (Some (user_id u))
                            (Some refreshTok) (db w1) of
                       (Inl e, d') \<Rightarrow> (Inl e, w1\<lparr>db := d'\<rparr>)
                     | (Inr x, d') \<Rightarrow>
                         (Inr \<lparr>pair_accessToken = accessTok,
                               pair_refreshToken = refreshTok\<rparr>,
                          w1\<lparr>db := d'\<rparr>)))))"

text \<open>
  The \<open>catch\<close> block of \<open>login\<close>. \<open>tokenPayload\<close> is \<open>None\<close> while the variable is
  still unassigned; \<open>register(undefined)\<close> then throws on \<open>tokenPayload.name\<close>.
\<close>

definition login_catch ::
  "'db AuthService \<Rightarrow> payload option \<Rightarrow> exn \<Rightarrow> 'db world \<Rightarrow> (exn + token_pair) \<times> 'db world" where
  "login_catch this tokenPayload error w =
     (if status error = Some NOT_FOUND
      then (case tokenPayload of
              None \<Rightarrow> (Inl (JsError ''TypeError: cannot read properties of undefined''), w)
            | Some p \<Rightarrow> register this p w)
      else (Inl error, w))"

definition login ::
  "'db AuthService \<Rightarrow> string \<Rightarrow> AuthProvider \<Rightarrow> 'db world \<Rightarrow> (exn + token_pair) \<times> 'db world" where
  "login this idToken provider w =
     (case verifyIdToken this idToken provider of
        Inl e \<Rightarrow> login_catch this None e w
      | Inr None \<Rightarrow>
          login_catch this None (JsError ''TypeError: cannot read properties of undefined'') w
      | Inr (Some tokenPayload) \<Rightarrow>
          (case getByEmail (userService this) (db w) (email tokenPayload) of
             Inl e \<Rightarrow> login_catch this (Some tokenPayload) e w
           | Inr u \<Rightarrow>
               (case uuidv4 this w of
                  (refreshTok, w1) \<Rightarrow>
                    (case getAccessToken this w1 (tokenPayload\<lparr>userId := Some (user_id u)\<rparr>) of
                       Inl e \<Rightarrow> login_catch this (Some tokenPayload) e w1
                     | Inr accessTok \<Rightarrow>
                         (case saveRefreshToken (userService this) (Some (user_id u))
                                 (Some refreshTok) (db w1) of
                            (Inl e, d) \<Rightarrow> login_catch this (Some tokenPayload) e (w1\<lparr>db := d\<rparr>)
                          | (Inr x, d) \<Rightarrow>
                              (Inr \<lparr>pair_accessToken = accessTok,
                                    pair_refreshToken = refreshTok\<rparr>,
                               w1\<lparr>db := d\<rparr>))))))"

definition logout ::
  "'db AuthService \<Rightarrow> string \<Rightarrow> 'db world \<Rightarrow> (exn + unit) \<times> 'db world" where
  "logout this accessToken w =
     (case verifyAccessToken this accessToken of
        Inl e \<Rightarrow> (Inl e, w)
      | Inr p \<Rightarrow>
          (case saveRefreshToken (userService this) (userId p) None (db w) of
             (r, d) \<Rightarrow> (r, w\<lparr>db := d\<rparr>)))"

text \<open>
  \<open>refreshToken\<close>: the arguments may be missing (\<open>None\<close>). The guard reads
  \<open>tokenPayload?.userId\<close>, so a \<open>null\<close> payload makes it false (the \<open>None\<close> case
  under the guard is never reached). \<open>Inr None\<close> is the \<open>undefined\<close> the function
  resolves to when the inner \<open>if (userId)\<close> is not taken.
\<close>

definition refreshToken ::
  "'db AuthService \<Rightarrow> string option \<Rightarrow> string option \<Rightarrow> 'db world
     \<Rightarrow> (exn + token_pair option) \<times> 'db world" where
  "refreshToken this accessToken refreshTok w =
     (let tokenPayload = decode (jwtService this) accessToken in
      if truthy accessToken \<and> truthy refreshTok
           \<and> truthy (case tokenPayload of None \<Rightarrow> None | Some p \<Rightarrow> userId p)
      then
        (case tokenPayload of
           None \<Rightarrow> (Inl (HttpException ''Bad token request'' BAD_REQUEST), w)
         | Some p \<Rightarrow>
             (case getUserIfRefreshTokenMatches (userService this) (db w) (userId p) refreshTok of
                Inl e \<Rightarrow> (Inl e, w)
              | Inr u \<Rightarrow>
                  if user_id u \<noteq> [] then
                    (case uuidv4 this w of
                       (newRefreshTok, w1) \<Rightarrow>
                         (case getAccessToken this w1 p of
                            Inl e \<Rightarrow> (Inl e, w1)
                          | Inr newAccessTok \<Rightarrow>
                              (case saveRefreshToken (userService this) (Some (user_id u))
                                      (Some newRefreshTok) (db w1) of
                                 (Inl e, d) \<Rightarrow> (Inl e, w1\<lparr>db := d\<rparr>)
                               | (Inr x, d) \<Rightarrow>
                                   (Inr (Some \<lparr>pair_accessToken = newAccessTok,
                                               pair_refreshToken = newRefreshTok\<rparr>),
                                    w1\<lparr>db := d\<rparr>))))
                  else (Inr None, w)))
      else (Inl (HttpException ''Bad token request'' BAD_REQUEST), w))"

section \<open>The store adapter as the specification describes it\<close>

text \<open>
  Modelled from the spec: \<open>UserService\<close> (\<open>../users/user.service\<close>) is not among the
  sources. The spec's contract (Refresh Token Store Adapter): \<open>getById\<close> and
  \<open>getByEmail\<close> return the record or fail \<open>NotFound\<close>; \<open>create(name, email)\<close>
  assigns a new id; \<open>saveRefreshToken(userId, token | absent)\<close> overwrites the one
  stored value; \<open>getUserIfRefreshTokenMatches\<close> returns a record only if the stored
  refresh token equals the presented one. The collection is a list of user documents;
  \<open>new_id\<close> is the id generator.
\<close>

text \<open>Modelled from the spec: the \<open>NotFound\<close> failure of the store adapter.\<close>

definition NotFound :: exn where
  "NotFound = HttpException ''Not Found'' NOT_FOUND"

text \<open>Modelled from the spec: \<open>getById(userId) -> UserRecord | fails NotFound\<close>.\<close>

definition spec_getById :: "user list \<Rightarrow> string option \<Rightarrow> exn + user" where
  "spec_getById d uid =
     (case find (\<lambda>u. Some (user_id u) = uid) d of
        None \<Rightarrow> Inl NotFound
      | Some u \<Rightarrow> Inr u)"

text \<open>Modelled from the spec: \<open>getByEmail(email) -> UserRecord | fails NotFound\<close>.\<close>

definition spec_getByEmail :: "user list \<Rightarrow> string option \<Rightarrow> exn + user" where
  "spec_getByEmail d em =
     (case find (\<lambda>u. user_email u = em) d of
        None \<Rightarrow> Inl NotFound
      | Some u \<Rightarrow> Inr u)"

text \<open>
  Modelled from the spec: \<open>create(name, email) -> UserRecord\<close> (assigns new userId);
  the new record holds no refresh token.
\<close>

definition spec_create ::
  "(user list \<Rightarrow> string) \<Rightarrow> string option \<Rightarrow> string option \<Rightarrow> user list
     \<Rightarrow> (exn + user) \<times> user list" where
  "spec_create new_id nm em d =
     (let u = \<lparr>user_id = new_id d, user_name = nm, user_email = em,
               user_refreshToken = None\<rparr>
      in (Inr u, d @ [u]))"

text \<open>
  Modelled from the spec: \<open>saveRefreshToken(userId, token | absent) -> void\<close>; the
  stored value of that user is overwritten, other users are left as they are.
\<close>

definition spec_saveRefreshToken ::
  "string option \<Rightarrow> string option \<Rightarrow> user list \<Rightarrow> (exn + unit) \<times> user list" where
  "spec_saveRefreshToken uid tok d =
     (Inr (), map (\<lambda>u. if Some (user_id u) = uid then u\<lparr>user_refreshToken := tok\<rparr> else u) d)"

text \<open>
  Modelled from the spec: \<open>getUserIfRefreshTokenMatches(userId, token)\<close> returns a
  record only if the stored refresh token equals \<open>token\<close>, and fails otherwise.
\<close>

definition spec_getUserIfRefreshTokenMatches ::
  "user list \<Rightarrow> string option \<Rightarrow> string option \<Rightarrow> exn + user" where
  "spec_getUserIfRefreshTokenMatches d uid tok =
     (case find (\<lambda>u. Some (user_id u) = uid \<and> user_refreshToken u = tok) d of
        None \<Rightarrow> Inl NotFound
      | Some u \<Rightarrow> Inr u)"

text \<open>Modelled from the spec: the \<open>UserService\<close> made of the five operations above.\<close>

definition spec_UserService :: "(user list \<Rightarrow> string) \<Rightarrow> user list UserService" where
  "spec_UserService new_id =
     \<lparr>getById = spec_getById,
      getByEmail = spec_getByEmail,
      create = spec_create new_id,
      saveRefreshToken = spec_saveRefreshToken,
      getUserIfRefreshTokenMatches = spec_getUserIfRefreshTokenMatches\<rparr>"

section \<open>Notions used by the properties\<close>

text \<open>
  The JWT library's own contract: decoding a token that \<open>sign\<close> produced gives back
  the claims that were signed.
\<close>

definition sign_decode_roundtrip :: "JwtService \<Rightarrow> bool" where
  "sign_decode_roundtrip js =
     (\<forall>c s t. sign js c s = Inr t \<longrightarrow> decode js (Some t) = Some c)"

text \<open>The candidate user id an access token decodes to (\<open>tokenPayload?.userId\<close>).\<close>

definition decoded_userId :: "'db AuthService \<Rightarrow> string option \<Rightarrow> string option" where
  "decoded_userId this accessToken =
     (case decode (jwtService this) accessToken of None \<Rightarrow> None | Some p \<Rightarrow> userId p)"

text \<open>
  \<open>only_valid this w uid tok\<close>: in world \<open>w\<close> every record of user \<open>uid\<close> stores
  exactly \<open>tok\<close>, and a refresh exchange for \<open>uid\<close> that presents anything else
  fails, leaving the world as it is.
\<close>

definition only_valid ::
  "user list AuthService \<Rightarrow> user list world \<Rightarrow> string option \<Rightarrow> string option \<Rightarrow> bool" where
  "only_valid this w uid tok =
     ((\<forall>u \<in> set (db w). Some (user_id u) = uid \<longrightarrow> user_refreshToken u = tok)
      \<and> (\<forall>accessToken r. decoded_userId this accessToken = uid \<longrightarrow> r \<noteq> tok
            \<longrightarrow> (\<exists>e. refreshToken this accessToken r w = (Inl e, w))))"

text \<open>
  \<open>tokens_drawn this w\<close>: every refresh token stored in \<open>w\<close> is a value an earlier
  \<open>uuidv4()\<close> call returned.
\<close>

definition tokens_drawn :: "user list AuthService \<Rightarrow> user list world \<Rightarrow> bool" where
  "tokens_drawn this w =
     (\<forall>u \<in> set (db w). \<forall>r. user_refreshToken u = Some r
          \<longrightarrow> (\<exists>n < uuid_calls w. r = uuid_seq this n))"

text \<open>
  \<open>superseded this w w' uid\<close>: whatever a record of user \<open>uid\<close> stored as its refresh
  token in \<open>w\<close>, a refresh exchange for \<open>uid\<close> presenting it in \<open>w'\<close> fails and
  leaves \<open>w'\<close> as it is.
\<close>

definition superseded ::
  "user list AuthService \<Rightarrow> user list world \<Rightarrow> user list world \<Rightarrow> string option \<Rightarrow> bool" where
  "superseded this w w' uid =
     (\<forall>u \<in> set (db w). Some (user_id u) = uid
        \<longrightarrow> (\<forall>accessToken. decoded_userId this accessToken = uid
              \<longrightarrow> (\<exists>e. refreshToken this accessToken (user_refreshToken u) w' = (Inl e, w'))))"

text \<open>
  \<open>rotated this w w' pair\<close>: after the step from \<open>w\<close> to \<open>w'\<close> that returned
  \<open>pair\<close>, the user the access token names stores exactly the returned refresh token,
  what that user stored before is refused, and the stored tokens are still drawn ones.
\<close>

definition rotated ::
  "user list AuthService \<Rightarrow> user list world \<Rightarrow> user list world \<Rightarrow> token_pair \<Rightarrow> bool" where
  "rotated this w w' pair =
     (only_valid this w' (decoded_userId this (Some (pair_accessToken pair)))
        (Some (pair_refreshToken pair))
      \<and> superseded this w w' (decoded_userId this (Some (pair_accessToken pair)))
      \<and> tokens_drawn this w')"

text \<open>
  \<open>signed_now this w tok\<close>: the token decodes to claims whose \<open>iat\<close> is the clock of
  \<open>w\<close> in whole seconds and whose \<open>exp\<close> is 300 seconds later.
\<close>

definition signed_now :: "'db AuthService \<Rightarrow> 'db world \<Rightarrow> string \<Rightarrow> bool" where
  "signed_now this w tok =
     (case decode (jwtService this) (Some tok) of
        None \<Rightarrow> False
      | Some c \<Rightarrow> iat c = Some (clock w div 1000) \<and> exp c = Some (clock w div 1000 + 300))"

section \<open>A concrete deployment\<close>

text \<open>
  One user, Ann, holding refresh token \<open>r1\<close>; a JWT service that knows a handful of
  tokens; a Google client that accepts two assertions.
\<close>

definition ann :: user where
  "ann = \<lparr>user_id = ''u1'', user_name = Some ''Ann'', user_email = Some ''ann@x.com'',
          user_refreshToken = Some ''r1''\<rparr>"

definition ann_claims :: "int \<Rightarrow> payload" where
  "ann_claims t = \<lparr>userId = Some ''u1'', name = Some ''Ann'', email = Some ''ann@x.com'',
                   iat = Some t, exp = Some (t + 300), permissions = None, roles = None\<rparr>"

definition bob_claims :: "int \<Rightarrow> payload" where
  "bob_claims t = \<lparr>userId = Some ''u2'', name = Some ''Bob'', email = Some ''bob@x.com'',
                   iat = Some t, exp = Some (t + 300), permissions = None, roles = None\<rparr>"

definition anonymous_claims :: payload where
  "anonymous_claims = \<lparr>userId = None, name = Some ''Ann'', email = Some ''ann@x.com'',
                       iat = Some 5, exp = Some 305, permissions = None, roles = None\<rparr>"

definition demo_sign :: "payload \<Rightarrow> string option \<Rightarrow> exn + string" where
  "demo_sign c s =
     (if s = None then Inl (JsError ''secretOrPrivateKey must have a value'')
      else if c = ann_claims 1700000000 then Inr ''ann.1700000000''
      else if c = bob_claims 1700000000 then Inr ''bob.1700000000''
      else if c = (ann_claims 1700000000)\<lparr>userId := Some ''u2''\<rparr> then Inr ''ann2.1700000000''
      else Inl (JsError ''payload not supported''))"

definition demo_decode :: "string option \<Rightarrow> payload option" where
  "demo_decode t =
     (if t = Some ''ann.1700000000'' then Some (ann_claims 1700000000)
      else if t = Some ''bob.1700000000'' then Some (bob_claims 1700000000)
      else if t = Some ''ann2.1700000000''
        then Some ((ann_claims 1700000000)\<lparr>userId := Some ''u2''\<rparr>)
      else if t = Some ''ann.expired'' then Some (ann_claims 5)
      else if t = Some ''ann.current'' then Some (ann_claims 1699999900)
      else if t = Some ''anonymous'' then Some anonymous_claims
      else None)"

definition demo_verify :: "string \<Rightarrow> string option \<Rightarrow> exn + payload" where
  "demo_verify t s =
     (if s = Some ''secret'' \<and> t = ''ann.current'' then Inr (ann_claims 1699999900)
      else if s = Some ''secret'' \<and> t = ''ghost.current''
        then Inr ((ann_claims 1699999900)\<lparr>userId := Some ''u9''\<rparr>)
      else Inl (JsError ''jwt expired''))"

definition demo_google :: "string \<Rightarrow> string option \<Rightarrow> exn + payload option" where
  "demo_google idToken audience =
     (if audience = Some ''client-id'' \<and> idToken = ''google.ann''
        then Inr (Some (ann_claims 7))
      else if audience = Some ''client-id'' \<and> idToken = ''google.bob''
        then Inr (Some ((bob_claims 7)\<lparr>userId := Some ''stale''\<rparr>))
      else Inl (JsError ''Invalid token signature''))"

definition demo_config :: "string \<Rightarrow> string option" where
  "demo_config k =
     (if k = ''JWT_SECRET'' then Some ''secret''
      else if k = ''GOOGLE_CLIENT_ID'' then Some ''client-id''
      else None)"

definition demo_uuid :: "nat \<Rightarrow> string" where
  "demo_uuid n = (if n = 0 then ''uuid-0'' else if n = 1 then ''uuid-1'' else ''uuid-2'')"

definition demo :: "user list AuthService" where
  "demo = \<lparr>configService = demo_config,
           jwtService = \<lparr>sign = demo_sign, verify = demo_verify, decode = demo_decode\<rparr>,
           userService = spec_UserService (\<lambda>d. ''u2''),
           googleOauthClient = demo_google,
           uuid_seq = demo_uuid\<rparr>"

definition demo_world :: "user list world" where
  "demo_world = \<lparr>db = [ann], uuid_calls = 0, clock = 1700000000123\<rparr>"

text \<open>The same deployment over a store whose \<open>saveRefreshToken\<close> fails \<open>NotFound\<close>.\<close>

definition demo_failing_save :: "user list AuthService" where
  "demo_failing_save =
     demo\<lparr>userService :=
            (spec_UserService (\<lambda>d. ''u2''))\<lparr>saveRefreshToken := (\<lambda>uid tok d. (Inl NotFound, d))\<rparr>\<rparr>"


text \<open>The same deployment with a signer that throws an exception of status 404.\<close>

definition demo_failing_sign :: "user list AuthService" where
  "demo_failing_sign =
     demo\<lparr>jwtService :=
            \<lparr>sign = (\<lambda>c s. Inl NotFound), verify = demo_verify, decode = demo_decode\<rparr>\<rparr>"

text \<open>The claim Google verifies for Bob, and the record \<open>create\<close> makes of it.\<close>

definition bob_claim :: payload where
  "bob_claim = \<lparr>userId = None, name = Some ''Bob'', email = Some ''bob@x.com'', iat = None,
                exp = None, permissions = None, roles = None\<rparr>"

definition bob :: user where
  "bob = \<lparr>user_id = ''u2'', user_name = Some ''Bob'', user_email = Some ''bob@x.com'',
          user_refreshToken = None\<rparr>"

text \<open>
  The claim Google verifies for Ann, and the second record a repeated \<open>create\<close>
  makes of it.
\<close>

definition ann_claim :: payload where
  "ann_claim = \<lparr>userId = None, name = Some ''Ann'', email = Some ''ann@x.com'', iat = None,
                exp = None, permissions = None, roles = None\<rparr>"

definition ann_twin :: user where
  "ann_twin = \<lparr>user_id = ''u2'', user_name = Some ''Ann'', user_email = Some ''ann@x.com'',
               user_refreshToken = None\<rparr>"

text \<open>A claim that arrives at \<open>register\<close> with a \<open>userId\<close>, an \<open>iat\<close> and an \<open>exp\<close> of its own.\<close>

definition stale_bob_claim :: payload where
  "stale_bob_claim = bob_claim\<lparr>userId := Some ''stale'', iat := Some 7, exp := Some 99999999999\<rparr>"

text \<open>
  The deployment with a \<open>uuidv4\<close> that never repeats a value, in a world where two
  values have been drawn and Ann holds the second.
\<close>

definition serial_uuid :: "nat \<Rightarrow> string" where
  "serial_uuid n = CHR ''r'' # replicate n (CHR ''1'')"

definition rotating :: "user list AuthService" where
  "rotating = demo\<lparr>uuid_seq := serial_uuid\<rparr>"

definition rotating_world :: "user list world" where
  "rotating_world = \<lparr>db = [ann], uuid_calls = Suc (Suc 0), clock = 1700000000123\<rparr>"

section \<open>Auxiliary facts\<close>

lemmas http_status_defs = BAD_REQUEST_def UNAUTHORIZED_def NOT_FOUND_def

lemmas demo_defs =
  demo_def demo_world_def demo_config_def demo_uuid_def demo_google_def demo_verify_def
  demo_decode_def demo_sign_def ann_def ann_claims_def bob_claims_def anonymous_claims_def
  bob_claim_def bob_def ann_claim_def ann_twin_def
  spec_UserService_def spec_getById_def spec_getByEmail_def spec_create_def
  spec_saveRefreshToken_def spec_getUserIfRefreshTokenMatches_def NotFound_def Let_def







section \<open>Login and registration\<close>



text \<open>
  C10. The \<open>catch\<close> of \<open>login\<close> encloses the whole body. After a successful lookup, an
  exception of status 404 thrown while the access token is issued, or by
  \<open>saveRefreshToken\<close>, is not passed on: \<open>login\<close> continues as \<open>register\<close> on the
  verified claim, from the world the failed call left.
\<close>

theorem login_NotFound_after_lookup_registers:
  "verifyIdToken this idToken provider = Inr (Some claim) \<Longrightarrow>
   getByEmail (userService this) (db w) (email claim) = Inr u \<Longrightarrow>
   status e = Some NOT_FOUND \<Longrightarrow>
     (getAccessToken this (w\<lparr>uuid_calls := Suc (uuid_calls w)\<rparr>)
          (claim\<lparr>userId := Some (user_id u)\<rparr>) = Inl e \<longrightarrow>
        login this idToken provider w
          = register this claim (w\<lparr>uuid_calls := Suc (uuid_calls w)\<rparr>))
     \<and> (getAccessToken this (w\<lparr>uuid_calls := Suc (uuid_calls w)\<rparr>)
          (claim\<lparr>userId := Some (user_id u)\<rparr>) = Inr tok \<longrightarrow>
        saveRefreshToken (userService this) (Some (user_id u))
          (Some (uuid_seq this (uuid_calls w))) (db w) = (Inl e, d) \<longrightarrow>
        login this idToken provider w
          = register this claim (w\<lparr>uuid_calls := Suc (uuid_calls w), db := d\<rparr>))"
  by (simp add: login_def login_catch_def uuidv4_def)

theorem login_NotFound_after_lookup_registers_witness:
  "verifyIdToken demo_failing_save ''google.ann'' Google = Inr (Some ann_claim)
   \<and> getByEmail (userService demo_failing_save) (db demo_world) (email ann_claim) = Inr ann
   \<and> status NotFound = Some NOT_FOUND
   \<and> saveRefreshToken (userService demo_failing_save) (Some ''u1'') (Some ''uuid-0'') [ann]
       = (Inl NotFound, [ann])
   \<and> login demo_failing_save ''google.ann'' Google demo_world
       = register demo_failing_save ann_claim (demo_world\<lparr>uuid_calls := 1\<rparr>)
   \<and> db (snd (login demo_failing_save ''google.ann'' Google demo_world)) = [ann, ann_twin]
   \<and> getAccessToken demo_failing_sign (demo_world\<lparr>uuid_calls := 1\<rparr>)
         (ann_claim\<lparr>userId := Some ''u1''\<rparr>) = Inl NotFound
   \<and> login demo_failing_sign ''google.ann'' Google demo_world
       = register demo_failing_sign ann_claim (demo_world\<lparr>uuid_calls := 1\<rparr>)
   \<and> db (snd (login demo_failing_sign ''google.ann'' Google demo_world)) = [ann, ann_twin]"
proof -
  let ?w1 = "demo_world\<lparr>uuid_calls := Suc (uuid_calls demo_world)\<rparr>"
  have st: "status NotFound = Some NOT_FOUND"
    by (simp add: NotFound_def)
  have v: "verifyIdToken demo_failing_save ''google.ann'' Google = Inr (Some ann_claim)"
    by (simp add: verifyIdToken_def demo_failing_save_def demo_defs)
  have g: "getByEmail (userService demo_failing_save) (db demo_world) (email ann_claim) = Inr ann"
    by (simp add: demo_failing_save_def demo_defs)
  have t: "getAccessToken demo_failing_save ?w1 (ann_claim\<lparr>userId := Some (user_id ann)\<rparr>)
             = Inr ''ann.1700000000''"
    by (simp add: getAccessToken_def demo_failing_save_def demo_defs)
  have s: "saveRefreshToken (userService demo_failing_save) (Some (user_id ann))
             (Some (uuid_seq demo_failing_save (uuid_calls demo_world))) (db demo_world)
           = (Inl NotFound, [ann])"
    by (simp add: demo_failing_save_def demo_def demo_world_def spec_UserService_def)
  have r: "register demo_failing_save ann_claim (demo_world\<lparr>uuid_calls := 1\<rparr>)
             = (Inl NotFound, demo_world\<lparr>db := [ann, ann_twin], uuid_calls := 2\<rparr>)"
    by (simp add: register_def uuidv4_def getAccessToken_def demo_failing_save_def demo_defs)
  have v': "verifyIdToken demo_failing_sign ''google.ann'' Google = Inr (Some ann_claim)"
    by (simp add: verifyIdToken_def demo_failing_sign_def demo_defs)
  have g': "getByEmail (userService demo_failing_sign) (db demo_world) (email ann_claim) = Inr ann"
    by (simp add: demo_failing_sign_def demo_defs)
  have t': "getAccessToken demo_failing_sign ?w1 (ann_claim\<lparr>userId := Some (user_id ann)\<rparr>)
              = Inl NotFound"
    by (simp add: getAccessToken_def demo_failing_sign_def demo_def)
  have r': "register demo_failing_sign ann_claim (demo_world\<lparr>uuid_calls := 1\<rparr>)
              = (Inl NotFound, demo_world\<lparr>db := [ann, ann_twin], uuid_calls := 2\<rparr>)"
    by (simp add: register_def uuidv4_def getAccessToken_def demo_failing_sign_def demo_defs)
  show ?thesis
    using login_NotFound_after_lookup_registers
            [OF v g st, of "''ann.1700000000''" "[ann]"]
          login_NotFound_after_lookup_registers [OF v' g' st, of "''t''" "[]"]
          v g st t s r t' r'
    by (simp add: demo_world_def ann_def demo_failing_save_def demo_def demo_uuid_def)
qed

section \<open>Identity verification\<close>

text \<open>
  C4. For a provider tag other than \<open>Google\<close> the \<open>switch\<close> of \<open>verifyIdToken\<close>
  matches no case: the function throws nothing and resolves to \<open>undefined\<close>. \<open>login\<close>
  then fails on reading \<open>tokenPayload.email\<close>, with a \<open>TypeError\<close> that carries no
  status, not with the exception of status 401 that a failed verification gives.
\<close>

theorem verifyIdToken_other_provider_undefined:
  "verifyIdToken this idToken (OtherProvider tag) = Inr None
   \<and> login this idToken (OtherProvider tag) w
       = (Inl (JsError ''TypeError: cannot read properties of undefined''), w)"
  by (simp add: verifyIdToken_def login_def login_catch_def)

section \<open>Silent login\<close>

text \<open>
  C8. When the access token verifies and the lookup by its \<open>userId\<close> fails, the
  lookup's exception is what \<open>silentLogin\<close> throws; by then only a \<open>uuidv4()\<close> value
  has been drawn, and the user collection is the one the call started with.
\<close>

theorem silentLogin_lookup_failure_propagates:
  "verifyAccessToken this accessToken = Inr p \<Longrightarrow>
   getById (userService this) (db w) (userId p) = Inl e \<Longrightarrow>
     silentLogin this accessToken w = (Inl e, w\<lparr>uuid_calls := Suc (uuid_calls w)\<rparr>)
     \<and> db (snd (silentLogin this accessToken w)) = db w"
  by (simp add: silentLogin_def uuidv4_def)

theorem silentLogin_lookup_failure_propagates_witness:
  "verifyAccessToken demo ''ghost.current'' = Inr ((ann_claims 1699999900)\<lparr>userId := Some ''u9''\<rparr>)
   \<and> getById (userService demo) (db demo_world) (Some ''u9'') = Inl (HttpException ''Not Found'' 404)
   \<and> silentLogin demo ''ghost.current'' demo_world
       = (Inl (HttpException ''Not Found'' 404), demo_world\<lparr>uuid_calls := 1\<rparr>)
   \<and> db (snd (silentLogin demo ''ghost.current'' demo_world)) = [ann]"
proof -
  have v: "verifyAccessToken demo ''ghost.current''
             = Inr ((ann_claims 1699999900)\<lparr>userId := Some ''u9''\<rparr>)"
    by (simp add: verifyAccessToken_def demo_def demo_verify_def demo_config_def)
  have g: "getById (userService demo) (db demo_world)
             (userId ((ann_claims 1699999900)\<lparr>userId := Some ''u9''\<rparr>))
           = Inl (HttpException ''Not Found'' 404)"
    by (simp add: demo_def demo_world_def spec_UserService_def spec_getById_def ann_def
        NotFound_def NOT_FOUND_def)
  show ?thesis
    using v g silentLogin_lookup_failure_propagates [OF v g]
    by (simp add: demo_world_def)
qed

section \<open>Refresh exchange\<close>



text \<open>
  C3, as claimed: with both values present and an access token that decodes to no
  \<open>userId\<close>, the exchange is silent. It is not: on the token \<open>anonymous\<close> it throws the
  exception of status 400.
\<close>

theorem refreshToken_no_userId_counterexample:
  "truthy (Some ''anonymous'') \<and> truthy (Some ''r1'')
   \<and> decoded_userId demo (Some ''anonymous'') = None
   \<and> refreshToken demo (Some ''anonymous'') (Some ''r1'') demo_world
       = (Inl (HttpException ''Bad token request'' 400), demo_world)
   \<and> refreshToken demo (Some ''anonymous'') (Some ''r1'') demo_world \<noteq> (Inr None, demo_world)"
  by (simp add: refreshToken_def decoded_userId_def demo_def demo_decode_def anonymous_claims_def
      http_status_defs)

text \<open>
  C3, amended: with both values present and non-empty and an access token that
  decodes to no \<open>userId\<close>, \<open>refreshToken\<close> throws the exception of status 400 and
  leaves the world as it is.
\<close>

theorem refreshToken_no_userId_BadRequest:
  "truthy accessToken \<Longrightarrow> truthy refreshTok \<Longrightarrow> \<not> truthy (decoded_userId this accessToken) \<Longrightarrow>
     refreshToken this accessToken refreshTok w
       = (Inl (HttpException ''Bad token request'' BAD_REQUEST), w)"
  by (auto simp: refreshToken_def decoded_userId_def Let_def)

theorem refreshToken_no_userId_BadRequest_witness:
  "truthy (Some ''anonymous'') \<and> truthy (Some ''r1'')
   \<and> \<not> truthy (decoded_userId demo (Some ''anonymous''))
   \<and> refreshToken demo (Some ''anonymous'') (Some ''r1'') demo_world
       = (Inl (HttpException ''Bad token request'' 400), demo_world)"
proof -
  have a: "truthy (Some ''anonymous'')" and r: "truthy (Some ''r1'')"
    by simp_all
  have u: "\<not> truthy (decoded_userId demo (Some ''anonymous''))"
    by (simp add: decoded_userId_def demo_def demo_decode_def anonymous_claims_def)
  show ?thesis
    using a r u refreshToken_no_userId_BadRequest [OF a r u, of demo_world]
    by (simp add: http_status_defs)
qed

text \<open>
  C2. \<open>refreshToken\<close> never consults \<open>verify\<close>. When both values are present, the
  access token decodes to a \<open>userId\<close>, the store's match check returns a record with
  an id, and signing and saving go through, the result is the pair of a newly signed
  access token and the newly drawn refresh token; and the outcome of the exchange is
  the same under every replacement of the \<open>verify\<close> function.
\<close>

theorem refreshToken_without_verification:
  "truthy accessToken \<Longrightarrow> truthy refreshTok \<Longrightarrow>
   decode (jwtService this) accessToken = Some p \<Longrightarrow> truthy (userId p) \<Longrightarrow>
   getUserIfRefreshTokenMatches (userService this) (db w) (userId p) refreshTok = Inr u \<Longrightarrow>
   user_id u \<noteq> [] \<Longrightarrow>
   getAccessToken this (w\<lparr>uuid_calls := Suc (uuid_calls w)\<rparr>) p = Inr tok \<Longrightarrow>
   saveRefreshToken (userService this) (Some (user_id u))
       (Some (uuid_seq this (uuid_calls w))) (db w) = (Inr (), d) \<Longrightarrow>
     refreshToken this accessToken refreshTok w
       = (Inr (Some \<lparr>pair_accessToken = tok, pair_refreshToken = uuid_seq this (uuid_calls w)\<rparr>),
          w\<lparr>uuid_calls := Suc (uuid_calls w), db := d\<rparr>)
     \<and> refreshToken (this\<lparr>jwtService := (jwtService this)\<lparr>verify := v\<rparr>\<rparr>) accessToken refreshTok w
         = refreshToken this accessToken refreshTok w"
  by (simp add: refreshToken_def uuidv4_def getAccessToken_def)

theorem refreshToken_without_verification_witness:
  "truthy (Some ''ann.expired'') \<and> truthy (Some ''r1'')
   \<and> decode (jwtService demo) (Some ''ann.expired'') = Some (ann_claims 5)
   \<and> truthy (userId (ann_claims 5))
   \<and> getUserIfRefreshTokenMatches (userService demo) (db demo_world) (Some ''u1'') (Some ''r1'')
       = Inr ann
   \<and> verifyAccessToken demo ''ann.expired''
       = Inl (HttpException ''Authorization token expired'' 401)
   \<and> refreshToken demo (Some ''ann.expired'') (Some ''r1'') demo_world
       = (Inr (Some \<lparr>pair_accessToken = ''ann.1700000000'', pair_refreshToken = ''uuid-0''\<rparr>),
          demo_world\<lparr>uuid_calls := 1, db := [ann\<lparr>user_refreshToken := Some ''uuid-0''\<rparr>]\<rparr>)"
proof -
  let ?w1 = "demo_world\<lparr>uuid_calls := Suc (uuid_calls demo_world)\<rparr>"
  have a: "truthy (Some ''ann.expired'')" and r: "truthy (Some ''r1'')"
    by simp_all
  have dc: "decode (jwtService demo) (Some ''ann.expired'') = Some (ann_claims 5)"
    by (simp add: demo_def demo_decode_def)
  have tu: "truthy (userId (ann_claims 5))"
    by (simp add: ann_claims_def)
  have m: "getUserIfRefreshTokenMatches (userService demo) (db demo_world)
             (userId (ann_claims 5)) (Some ''r1'') = Inr ann"
    by (simp add: demo_defs)
  have i: "user_id ann \<noteq> []"
    by (simp add: ann_def)
  have t: "getAccessToken demo ?w1 (ann_claims 5) = Inr ''ann.1700000000''"
    by (simp add: getAccessToken_def demo_defs)
  have s: "saveRefreshToken (userService demo) (Some (user_id ann))
             (Some (uuid_seq demo (uuid_calls demo_world))) (db demo_world)
           = (Inr (), [ann\<lparr>user_refreshToken := Some ''uuid-0''\<rparr>])"
    by (simp add: demo_defs)
  have x: "verifyAccessToken demo ''ann.expired''
             = Inl (HttpException ''Authorization token expired'' 401)"
    by (simp add: verifyAccessToken_def demo_def demo_verify_def http_status_defs)
  show ?thesis
    using a r dc tu m i x refreshToken_without_verification [OF a r dc tu m i t s]
    by (simp add: demo_world_def demo_def demo_uuid_def ann_claims_def)
qed

section \<open>Token issuance\<close>

lemma getAccessToken_claims:
  "sign_decode_roundtrip (jwtService this) \<Longrightarrow> getAccessToken this w p = Inr tok \<Longrightarrow>
     decode (jwtService this) (Some tok)
       = Some (p\<lparr>iat := Some (clock w div 1000), exp := Some (clock w div 1000 + 300)\<rparr>)"
  by (simp add: sign_decode_roundtrip_def getAccessToken_def Let_def)

lemma getAccessToken_signed_now:
  "sign_decode_roundtrip (jwtService this) \<Longrightarrow> getAccessToken this w1 p = Inr tok \<Longrightarrow>
   clock w1 = clock w \<Longrightarrow> signed_now this w tok"
  by (simp add: signed_now_def getAccessToken_claims)

lemma silentLogin_signed_now:
  "sign_decode_roundtrip (jwtService this) \<Longrightarrow> silentLogin this accessToken w = (Inr pair, w') \<Longrightarrow>
     signed_now this w (pair_accessToken pair)"
  by (auto simp: silentLogin_def uuidv4_def split: sum.splits prod.splits
      intro: getAccessToken_signed_now)

lemma register_signed_now:
  "sign_decode_roundtrip (jwtService this) \<Longrightarrow> register this p w = (Inr pair, w') \<Longrightarrow>
     signed_now this w (pair_accessToken pair)"
  by (auto simp: register_def uuidv4_def split: sum.splits prod.splits
      intro: getAccessToken_signed_now)

lemma login_catch_signed_now:
  "sign_decode_roundtrip (jwtService this) \<Longrightarrow> login_catch this p e w1 = (Inr pair, w') \<Longrightarrow>
   clock w1 = clock w \<Longrightarrow> signed_now this w (pair_accessToken pair)"
  by (auto simp: login_catch_def signed_now_def split: if_splits option.splits
      dest!: register_signed_now)

lemma login_signed_now:
  "sign_decode_roundtrip (jwtService this) \<Longrightarrow> login this idToken provider w = (Inr pair, w') \<Longrightarrow>
     signed_now this w (pair_accessToken pair)"
  by (auto simp: login_def uuidv4_def split: sum.splits prod.splits option.splits
      intro: getAccessToken_signed_now login_catch_signed_now)

lemma refreshToken_signed_now:
  "sign_decode_roundtrip (jwtService this) \<Longrightarrow>
   refreshToken this accessToken refreshTok w = (Inr (Some pair), w') \<Longrightarrow>
     signed_now this w (pair_accessToken pair)"
  by (auto simp: refreshToken_def uuidv4_def Let_def
      split: sum.splits prod.splits option.splits if_splits
      intro: getAccessToken_signed_now)

lemma demo_roundtrip: "sign_decode_roundtrip (jwtService demo)"
  by (simp add: sign_decode_roundtrip_def demo_def demo_sign_def demo_decode_def)

lemma demo_silentLogin:
  "silentLogin demo ''ann.current'' demo_world
     = (Inr \<lparr>pair_accessToken = ''ann.1700000000'', pair_refreshToken = ''uuid-0''\<rparr>,
        demo_world\<lparr>db := [ann\<lparr>user_refreshToken := Some ''uuid-0''\<rparr>], uuid_calls := 1\<rparr>)"
  by (simp add: silentLogin_def verifyAccessToken_def uuidv4_def getAccessToken_def demo_defs)

lemma demo_login:
  "login demo ''google.ann'' Google demo_world
     = (Inr \<lparr>pair_accessToken = ''ann.1700000000'', pair_refreshToken = ''uuid-0''\<rparr>,
        demo_world\<lparr>db := [ann\<lparr>user_refreshToken := Some ''uuid-0''\<rparr>], uuid_calls := 1\<rparr>)"
  by (simp add: login_def verifyIdToken_def uuidv4_def getAccessToken_def demo_defs)

lemma demo_register:
  "register demo bob_claim demo_world
     = (Inr \<lparr>pair_accessToken = ''bob.1700000000'', pair_refreshToken = ''uuid-0''\<rparr>,
        demo_world\<lparr>db := [ann, bob\<lparr>user_refreshToken := Some ''uuid-0''\<rparr>], uuid_calls := 1\<rparr>)"
  by (simp add: register_def uuidv4_def getAccessToken_def demo_defs)

lemma demo_refreshToken:
  "refreshToken demo (Some ''ann.expired'') (Some ''r1'') demo_world
     = (Inr (Some \<lparr>pair_accessToken = ''ann.1700000000'', pair_refreshToken = ''uuid-0''\<rparr>),
        demo_world\<lparr>db := [ann\<lparr>user_refreshToken := Some ''uuid-0''\<rparr>], uuid_calls := 1\<rparr>)"
  by (simp add: refreshToken_def uuidv4_def getAccessToken_def demo_defs)

text \<open>
  C7. Given that decoding returns the claims that were signed, every access token
  that \<open>getAccessToken\<close> issues, and so the access token of every pair that
  \<open>silentLogin\<close>, \<open>login\<close>, \<open>register\<close> or \<open>refreshToken\<close> returns, carries
  \<open>iat = \<lfloor>Date.now() / 1000\<rfloor>\<close> and \<open>exp = iat + 300\<close>.
\<close>

theorem issued_access_tokens_live_300_seconds:
  "sign_decode_roundtrip (jwtService this) \<Longrightarrow>
     (getAccessToken this w p = Inr tok \<longrightarrow> signed_now this w tok)
     \<and> (silentLogin this accessToken w = (Inr pair1, w1) \<longrightarrow>
          signed_now this w (pair_accessToken pair1))
     \<and> (login this idToken provider w = (Inr pair2, w2) \<longrightarrow>
          signed_now this w (pair_accessToken pair2))
     \<and> (register this claim w = (Inr pair3, w3) \<longrightarrow>
          signed_now this w (pair_accessToken pair3))
     \<and> (refreshToken this presented refreshTok w = (Inr (Some pair4), w4) \<longrightarrow>
          signed_now this w (pair_accessToken pair4))"
  using getAccessToken_signed_now [of this w p tok w] silentLogin_signed_now [of this]
    login_signed_now [of this] register_signed_now [of this] refreshToken_signed_now [of this]
  by blast

theorem issued_access_tokens_live_300_seconds_witness:
  "sign_decode_roundtrip (jwtService demo)
   \<and> clock demo_world div 1000 = 1700000000
   \<and> getAccessToken demo demo_world (ann_claims 5) = Inr ''ann.1700000000''
   \<and> fst (silentLogin demo ''ann.current'' demo_world)
       = Inr \<lparr>pair_accessToken = ''ann.1700000000'', pair_refreshToken = ''uuid-0''\<rparr>
   \<and> fst (login demo ''google.ann'' Google demo_world)
       = Inr \<lparr>pair_accessToken = ''ann.1700000000'', pair_refreshToken = ''uuid-0''\<rparr>
   \<and> fst (register demo bob_claim demo_world)
       = Inr \<lparr>pair_accessToken = ''bob.1700000000'', pair_refreshToken = ''uuid-0''\<rparr>
   \<and> fst (refreshToken demo (Some ''ann.expired'') (Some ''r1'') demo_world)
       = Inr (Some \<lparr>pair_accessToken = ''ann.1700000000'', pair_refreshToken = ''uuid-0''\<rparr>)
   \<and> signed_now demo demo_world ''ann.1700000000''
   \<and> signed_now demo demo_world ''bob.1700000000''
   \<and> decode (jwtService demo) (Some ''ann.1700000000'') = Some (ann_claims 1700000000)
   \<and> exp (ann_claims 1700000000) = Some (1700000000 + 300)"
proof -
  have g: "getAccessToken demo demo_world (ann_claims 5) = Inr ''ann.1700000000''"
    by (simp add: getAccessToken_def demo_defs)
  have c: "clock demo_world div 1000 = 1700000000"
    by (simp add: demo_world_def)
  have d: "decode (jwtService demo) (Some ''ann.1700000000'') = Some (ann_claims 1700000000)"
    by (simp add: demo_def demo_decode_def)
  have x: "exp (ann_claims 1700000000) = Some (1700000000 + 300)"
    by (simp add: ann_claims_def)
  let ?annp = "\<lparr>pair_accessToken = ''ann.1700000000'', pair_refreshToken = ''uuid-0''\<rparr>"
  let ?bobp = "\<lparr>pair_accessToken = ''bob.1700000000'', pair_refreshToken = ''uuid-0''\<rparr>"
  let ?wa = "demo_world\<lparr>db := [ann\<lparr>user_refreshToken := Some ''uuid-0''\<rparr>], uuid_calls := 1\<rparr>"
  let ?wb = "demo_world\<lparr>db := [ann, bob\<lparr>user_refreshToken := Some ''uuid-0''\<rparr>], uuid_calls := 1\<rparr>"
  show ?thesis
    using issued_access_tokens_live_300_seconds [OF demo_roundtrip,
        where w = demo_world and p = "ann_claims 5" and tok = "''ann.1700000000''"
          and accessToken = "''ann.current''" and ?pair1.0 = ?annp and ?w1.0 = ?wa
          and idToken = "''google.ann''" and provider = Google and ?pair2.0 = ?annp and ?w2.0 = ?wa
          and claim = bob_claim and ?pair3.0 = ?bobp and ?w3.0 = ?wb
          and presented = "Some ''ann.expired''" and refreshTok = "Some ''r1''"
          and ?pair4.0 = ?annp and ?w4.0 = ?wa]
      demo_roundtrip g c d x demo_silentLogin demo_login demo_register demo_refreshToken
    by simp
qed

text \<open>
  C9. What \<open>getAccessToken\<close> returns does not depend on the \<open>iat\<close> and \<open>exp\<close> of the
  payload it is given, and what \<open>register\<close> returns does not depend on the \<open>userId\<close>,
  \<open>iat\<close> and \<open>exp\<close> of the claim it is given. Given that decoding returns the claims
  that were signed, the access token \<open>register\<close> returns decodes to the id of the
  record \<open>create\<close> made, with \<open>iat\<close> and \<open>exp\<close> computed from the clock.
\<close>

theorem issuance_overrides_supplied_fields:
  "getAccessToken this w (p\<lparr>iat := a, exp := b\<rparr>) = getAccessToken this w p
   \<and> register this (p\<lparr>userId := x, iat := a, exp := b\<rparr>) w = register this p w
   \<and> (sign_decode_roundtrip (jwtService this) \<longrightarrow>
        create (userService this) (name p) (email p) (db w) = (Inr u, d) \<longrightarrow>
        register this p w = (Inr pair, w') \<longrightarrow>
          decoded_userId this (Some (pair_accessToken pair)) = Some (user_id u)
          \<and> signed_now this w (pair_accessToken pair))"
proof (intro conjI impI)
  show "getAccessToken this w (p\<lparr>iat := a, exp := b\<rparr>) = getAccessToken this w p"
    by (simp add: getAccessToken_def)
  show "register this (p\<lparr>userId := x, iat := a, exp := b\<rparr>) w = register this p w"
    by (auto simp: register_def getAccessToken_def split: prod.splits sum.splits)
next
  assume rt: "sign_decode_roundtrip (jwtService this)"
    and c: "create (userService this) (name p) (email p) (db w) = (Inr u, d)"
    and r: "register this p w = (Inr pair, w')"
  from r c obtain w1 where
    "getAccessToken this w1 (p\<lparr>userId := Some (user_id u)\<rparr>) = Inr (pair_accessToken pair)"
    by (auto simp: register_def uuidv4_def split: sum.splits prod.splits)
  from getAccessToken_claims [OF rt this]
  show "decoded_userId this (Some (pair_accessToken pair)) = Some (user_id u)"
    by (simp add: decoded_userId_def)
  from rt r show "signed_now this w (pair_accessToken pair)"
    by (rule register_signed_now)
qed

theorem issuance_overrides_supplied_fields_witness:
  "sign_decode_roundtrip (jwtService demo)
   \<and> create (userService demo) (name stale_bob_claim) (email stale_bob_claim) (db demo_world)
       = (Inr bob, [ann, bob])
   \<and> register demo stale_bob_claim demo_world
       = (Inr \<lparr>pair_accessToken = ''bob.1700000000'', pair_refreshToken = ''uuid-0''\<rparr>,
          demo_world\<lparr>db := [ann, bob\<lparr>user_refreshToken := Some ''uuid-0''\<rparr>], uuid_calls := 1\<rparr>)
   \<and> decoded_userId demo (Some ''bob.1700000000'') = Some ''u2''
   \<and> signed_now demo demo_world ''bob.1700000000''
   \<and> getAccessToken demo demo_world ((ann_claims 5)\<lparr>iat := Some 7, exp := None\<rparr>)
       = Inr ''ann.1700000000''"
proof -
  let ?w' = "demo_world\<lparr>db := [ann, bob\<lparr>user_refreshToken := Some ''uuid-0''\<rparr>], uuid_calls := 1\<rparr>"
  let ?pair = "\<lparr>pair_accessToken = ''bob.1700000000'', pair_refreshToken = ''uuid-0''\<rparr>"
  have c: "create (userService demo) (name stale_bob_claim) (email stale_bob_claim) (db demo_world)
             = (Inr bob, [ann, bob])"
    by (simp add: stale_bob_claim_def demo_defs)
  have r: "register demo stale_bob_claim demo_world = (Inr ?pair, ?w')"
    by (simp add: stale_bob_claim_def register_def uuidv4_def getAccessToken_def demo_defs)
  have g: "getAccessToken demo demo_world (ann_claims 5) = Inr ''ann.1700000000''"
    by (simp add: getAccessToken_def demo_defs)
  show ?thesis
    using issuance_overrides_supplied_fields
            [where this = demo and w = demo_world and p = stale_bob_claim and u = bob
               and d = "[ann, bob]" and pair = ?pair and w' = ?w']
          issuance_overrides_supplied_fields
            [where this = demo and w = demo_world and p = "ann_claims 5" and a = "Some 7"
               and b = None]
          demo_roundtrip c r g
    by (simp add: bob_def)
qed

section \<open>Rotation over the specified store\<close>

lemma spec_save_stored:
  assumes m: "u \<in> set (snd (spec_saveRefreshToken uid tok d0))" and i: "Some (user_id u) = uid"
  shows "user_refreshToken u = tok"
proof -
  from m obtain x where x: "x \<in> set d0"
    and u: "u = (if Some (user_id x) = uid then x\<lparr>user_refreshToken := tok\<rparr> else x)"
    by (auto simp: spec_saveRefreshToken_def)
  show ?thesis
  proof (cases "Some (user_id x) = uid")
    case True
    with u have "u = x\<lparr>user_refreshToken := tok\<rparr>" by simp
    then show ?thesis by simp
  next
    case False
    with u have "u = x" by simp
    with i False show ?thesis by simp
  qed
qed

lemma spec_match_fails:
  assumes a: "\<forall>u \<in> set d. Some (user_id u) = uid \<longrightarrow> user_refreshToken u = tok"
    and r: "r \<noteq> tok"
  shows "spec_getUserIfRefreshTokenMatches d uid r = Inl NotFound"
proof -
  have "\<not> (\<exists>u. u \<in> set d \<and> Some (user_id u) = uid \<and> user_refreshToken u = r)"
    using a r by blast
  then have "find (\<lambda>u. Some (user_id u) = uid \<and> user_refreshToken u = r) d = None"
    by (simp add: find_None_iff)
  then show ?thesis
    by (simp add: spec_getUserIfRefreshTokenMatches_def)
qed

lemma spec_match_id:
  assumes "spec_getUserIfRefreshTokenMatches d uid r = Inr u"
  shows "Some (user_id u) = uid"
proof (cases "find (\<lambda>u. Some (user_id u) = uid \<and> user_refreshToken u = r) d")
  case None
  with assms show ?thesis by (simp add: spec_getUserIfRefreshTokenMatches_def)
next
  case (Some v)
  with assms have "v = u" by (simp add: spec_getUserIfRefreshTokenMatches_def)
  with Some show ?thesis by (auto simp: find_Some_iff)
qed


lemma refreshToken_mismatch_fails:
  assumes us: "userService this = spec_UserService new_id"
    and st: "\<forall>u \<in> set (db w). Some (user_id u) = uid \<longrightarrow> user_refreshToken u = tok"
    and dec: "decoded_userId this accessToken = uid"
    and r: "r \<noteq> tok"
  shows "\<exists>e. refreshToken this accessToken r w = (Inl e, w)"
proof (cases "truthy accessToken \<and> truthy r \<and> truthy (decoded_userId this accessToken)")
  case False
  then show ?thesis
    by (auto simp: refreshToken_def decoded_userId_def Let_def)
next
  case True
  then obtain p where p: "decode (jwtService this) accessToken = Some p"
    by (cases "decode (jwtService this) accessToken") (simp_all add: decoded_userId_def)
  with dec have u: "userId p = uid"
    by (simp add: decoded_userId_def)
  have "spec_getUserIfRefreshTokenMatches (db w) uid r = Inl NotFound"
    using st r by (rule spec_match_fails)
  then have "getUserIfRefreshTokenMatches (userService this) (db w) (userId p) r = Inl NotFound"
    by (simp add: us u spec_UserService_def)
  with True p show ?thesis
    by (simp add: refreshToken_def decoded_userId_def)
qed

lemma spec_save_only_valid:
  assumes us: "userService this = spec_UserService new_id"
    and d: "saveRefreshToken (userService this) uid tok d0 = (x, db w)"
  shows "only_valid this w uid tok"
proof -
  from d have "db w = snd (spec_saveRefreshToken uid tok d0)"
    by (simp add: us spec_UserService_def)
  then have st: "\<forall>u \<in> set (db w). Some (user_id u) = uid \<longrightarrow> user_refreshToken u = tok"
    using spec_save_stored [of _ uid tok d0] by simp
  have "\<And>accessToken r. decoded_userId this accessToken = uid \<Longrightarrow> r \<noteq> tok
          \<Longrightarrow> \<exists>e. refreshToken this accessToken r w = (Inl e, w)"
    using us st by (rule refreshToken_mismatch_fails)
  with st show ?thesis
    unfolding only_valid_def by simp
qed


lemma issued_for:
  assumes rt: "sign_decode_roundtrip (jwtService this)"
    and g: "getAccessToken this w1 p = Inr tok"
  shows "decoded_userId this (Some tok) = userId p"
  using getAccessToken_claims [OF rt g] by (simp add: decoded_userId_def)

lemma tokens_drawn_draw:
  "tokens_drawn this w \<Longrightarrow> tokens_drawn this (w\<lparr>uuid_calls := Suc (uuid_calls w)\<rparr>)"
  unfolding tokens_drawn_def by (simp add: less_Suc_eq) blast

lemma spec_save_member:
  assumes m: "u \<in> set (snd (spec_saveRefreshToken uid tok d0))"
  shows "u \<in> set d0 \<or> user_refreshToken u = tok"
proof -
  from m obtain x where x: "x \<in> set d0"
    and u: "u = (if Some (user_id x) = uid then x\<lparr>user_refreshToken := tok\<rparr> else x)"
    by (auto simp: spec_saveRefreshToken_def)
  show ?thesis
  proof (cases "Some (user_id x) = uid")
    case True
    with u have "u = x\<lparr>user_refreshToken := tok\<rparr>" by simp
    then show ?thesis by simp
  next
    case False
    with u x show ?thesis by simp
  qed
qed

lemma tokens_drawn_save:
  assumes inv: "tokens_drawn this w"
    and us: "userService this = spec_UserService new_id"
    and s: "saveRefreshToken (userService this) uid tok (db w) = (x, d)"
    and t: "tok = None \<or> (\<exists>n < uuid_calls w. tok = Some (uuid_seq this n))"
  shows "tokens_drawn this (w\<lparr>db := d\<rparr>)"
  unfolding tokens_drawn_def
proof (intro ballI allI impI)
  fix u r
  assume u: "u \<in> set (db (w\<lparr>db := d\<rparr>))" and r: "user_refreshToken u = Some r"
  from s have "d = snd (spec_saveRefreshToken uid tok (db w))"
    by (simp add: us spec_UserService_def)
  with u have "u \<in> set (db w) \<or> user_refreshToken u = tok"
    using spec_save_member [of u uid tok "db w"] by simp
  then show "\<exists>n < uuid_calls (w\<lparr>db := d\<rparr>). r = uuid_seq this n"
  proof
    assume "u \<in> set (db w)"
    with inv r show ?thesis by (simp add: tokens_drawn_def)
  next
    assume "user_refreshToken u = tok"
    with r t show ?thesis by auto
  qed
qed

lemma tokens_drawn_create:
  assumes inv: "tokens_drawn this w"
    and us: "userService this = spec_UserService new_id"
    and c: "create (userService this) nm em (db w) = (x, d)"
  shows "tokens_drawn this (w\<lparr>db := d\<rparr>)"
proof -
  from c have "d = db w @ [\<lparr>user_id = new_id (db w), user_name = nm, user_email = em,
                            user_refreshToken = None\<rparr>]"
    by (simp add: us spec_UserService_def spec_create_def Let_def)
  with inv show ?thesis
    by (auto simp: tokens_drawn_def)
qed

lemma tokens_drawn_draw_save:
  assumes inv: "tokens_drawn this w"
    and us: "userService this = spec_UserService new_id"
    and s: "saveRefreshToken (userService this) uid (Some (uuid_seq this (uuid_calls w))) (db w)
              = (x, d)"
  shows "tokens_drawn this (w\<lparr>uuid_calls := Suc (uuid_calls w), db := d\<rparr>)"
proof -
  let ?w1 = "w\<lparr>uuid_calls := Suc (uuid_calls w)\<rparr>"
  have i1: "tokens_drawn this ?w1"
    using inv by (rule tokens_drawn_draw)
  have s1: "saveRefreshToken (userService this) uid (Some (uuid_seq this (uuid_calls w)))
              (db ?w1) = (x, d)"
    using s by simp
  have t1: "Some (uuid_seq this (uuid_calls w)) = None
              \<or> (\<exists>n < uuid_calls ?w1. Some (uuid_seq this (uuid_calls w)) = Some (uuid_seq this n))"
    by auto
  have "tokens_drawn this (?w1\<lparr>db := d\<rparr>)"
    by (rule tokens_drawn_save [OF i1 us s1 t1])
  then show ?thesis by simp
qed

lemma silentLogin_tokens_drawn:
  assumes us: "userService this = spec_UserService new_id" and inv: "tokens_drawn this w"
  shows "tokens_drawn this (snd (silentLogin this accessToken w))"
  using inv tokens_drawn_draw [OF inv] tokens_drawn_draw_save [OF inv us]
  by (auto simp: silentLogin_def uuidv4_def split: sum.splits prod.splits)

lemma register_tokens_drawn:
  assumes us: "userService this = spec_UserService new_id" and inv: "tokens_drawn this w"
  shows "tokens_drawn this (snd (register this claim w))"
proof (cases "create (userService this) (name claim) (email claim) (db w)")
  case (Pair x d)
  let ?w0 = "w\<lparr>db := d\<rparr>"
  have inv0: "tokens_drawn this ?w0"
    using inv us Pair by (rule tokens_drawn_create)
  have r: "register this claim w = (case x of Inl e \<Rightarrow> (Inl e, ?w0) | Inr u \<Rightarrow>
            (case getAccessToken this (?w0\<lparr>uuid_calls := Suc (uuid_calls w)\<rparr>)
                    (claim\<lparr>userId := Some (user_id u)\<rparr>) of
               Inl e \<Rightarrow> (Inl e, ?w0\<lparr>uuid_calls := Suc (uuid_calls w)\<rparr>)
             | Inr accessTok \<Rightarrow>
                 (case saveRefreshToken (userService this) (Some (user_id u))
                         (Some (uuid_seq this (uuid_calls w))) d of
                    (Inl e, d') \<Rightarrow> (Inl e, ?w0\<lparr>uuid_calls := Suc (uuid_calls w), db := d'\<rparr>)
                  | (Inr y, d') \<Rightarrow>
                      (Inr \<lparr>pair_accessToken = accessTok,
                            pair_refreshToken = uuid_seq this (uuid_calls w)\<rparr>,
                       ?w0\<lparr>uuid_calls := Suc (uuid_calls w), db := d'\<rparr>))))"
    by (simp add: register_def uuidv4_def Pair split: sum.splits prod.splits)
  show ?thesis
    unfolding r
    using inv0 tokens_drawn_draw [OF inv0] tokens_drawn_draw_save [OF inv0 us]
    by (auto split: sum.splits prod.splits)
qed

lemma login_catch_tokens_drawn:
  assumes us: "userService this = spec_UserService new_id" and inv: "tokens_drawn this w"
  shows "tokens_drawn this (snd (login_catch this tp e w))"
  using inv register_tokens_drawn [OF us inv]
  by (auto simp: login_catch_def split: option.splits)

lemma login_tokens_drawn:
  assumes us: "userService this = spec_UserService new_id" and inv: "tokens_drawn this w"
  shows "tokens_drawn this (snd (login this idToken provider w))"
  using login_catch_tokens_drawn [OF us inv]
    login_catch_tokens_drawn [OF us tokens_drawn_draw [OF inv]]
    login_catch_tokens_drawn [OF us tokens_drawn_draw_save [OF inv us]]
    tokens_drawn_draw_save [OF inv us]
  by (auto simp: login_def uuidv4_def split: sum.splits prod.splits option.splits)

lemma logout_tokens_drawn:
  assumes us: "userService this = spec_UserService new_id" and inv: "tokens_drawn this w"
  shows "tokens_drawn this (snd (logout this accessToken w))"
  using inv tokens_drawn_save [OF inv us, where tok = None]
  by (auto simp: logout_def split: sum.splits prod.splits)

lemma refreshToken_tokens_drawn:
  assumes us: "userService this = spec_UserService new_id" and inv: "tokens_drawn this w"
  shows "tokens_drawn this (snd (refreshToken this accessToken refreshTok w))"
  using inv tokens_drawn_draw [OF inv] tokens_drawn_draw_save [OF inv us]
  by (auto simp: refreshToken_def uuidv4_def Let_def
      split: sum.splits prod.splits option.splits)

lemma silentLogin_rotation:
  assumes ok: "silentLogin this accessToken w = (Inr pair, w')"
  obtains p w1 where "getAccessToken this w1 p = Inr (pair_accessToken pair)"
    and "saveRefreshToken (userService this) (userId p) (Some (pair_refreshToken pair)) (db w)
           = (Inr (), db w')"
    and "pair_refreshToken pair = uuid_seq this (uuid_calls w)"
  using ok by (auto simp: silentLogin_def uuidv4_def split: sum.splits prod.splits)

lemma register_rotation:
  assumes ok: "register this claim w = (Inr pair, w')"
  obtains p w1 d0 where "getAccessToken this w1 p = Inr (pair_accessToken pair)"
    and "saveRefreshToken (userService this) (userId p) (Some (pair_refreshToken pair)) d0
           = (Inr (), db w')"
    and "pair_refreshToken pair = uuid_seq this (uuid_calls w)"
  using ok by (auto simp: register_def uuidv4_def split: sum.splits prod.splits)

lemma login_rotation:
  assumes ok: "login this idToken provider w = (Inr pair, w')"
  obtains (direct) p w1 where "getAccessToken this w1 p = Inr (pair_accessToken pair)"
    and "saveRefreshToken (userService this) (userId p) (Some (pair_refreshToken pair)) (db w)
           = (Inr (), db w')"
    and "pair_refreshToken pair = uuid_seq this (uuid_calls w)"
  | (registered) claim w1 where "register this claim w1 = (Inr pair, w')"
    and "uuid_calls w \<le> uuid_calls w1"
  using ok
  by (auto simp: login_def login_catch_def uuidv4_def
      split: sum.splits prod.splits option.splits if_splits)

lemma refreshToken_rotation:
  assumes us: "userService this = spec_UserService new_id"
    and ok: "refreshToken this accessToken refreshTok w = (Inr (Some pair), w')"
  obtains p w1 where "getAccessToken this w1 p = Inr (pair_accessToken pair)"
    and "saveRefreshToken (userService this) (userId p) (Some (pair_refreshToken pair)) (db w)
           = (Inr (), db w')"
    and "pair_refreshToken pair = uuid_seq this (uuid_calls w)"
  using ok spec_match_id
  by (auto simp: refreshToken_def uuidv4_def Let_def us spec_UserService_def
      split: sum.splits prod.splits option.splits if_splits)

lemma only_valid_supersedes:
  assumes ov: "only_valid this w' uid tok"
    and old: "\<forall>u \<in> set (db w). Some (user_id u) = uid \<longrightarrow> user_refreshToken u \<noteq> tok"
  shows "superseded this w w' uid"
  using ov old unfolding only_valid_def superseded_def by blast

lemma rotatedI:
  assumes us: "userService this = spec_UserService new_id"
    and rt: "sign_decode_roundtrip (jwtService this)"
    and uniq: "inj (uuid_seq this)"
    and inv: "tokens_drawn this w"
    and inv': "tokens_drawn this w'"
    and g: "getAccessToken this wx p = Inr (pair_accessToken pair)"
    and s: "saveRefreshToken (userService this) (userId p) (Some (pair_refreshToken pair)) d0
              = (x, db w')"
    and m: "pair_refreshToken pair = uuid_seq this m"
    and le: "uuid_calls w \<le> m"
  shows "rotated this w w' pair"
proof -
  have uid: "decoded_userId this (Some (pair_accessToken pair)) = userId p"
    using rt g by (rule issued_for)
  have ov: "only_valid this w' (userId p) (Some (pair_refreshToken pair))"
    using us s by (rule spec_save_only_valid)
  have old: "\<forall>u \<in> set (db w). Some (user_id u) = userId p
               \<longrightarrow> user_refreshToken u \<noteq> Some (pair_refreshToken pair)"
  proof (intro ballI impI notI)
    fix u
    assume "u \<in> set (db w)" and "user_refreshToken u = Some (pair_refreshToken pair)"
    with inv obtain n where n: "n < uuid_calls w" and "pair_refreshToken pair = uuid_seq this n"
      unfolding tokens_drawn_def by blast
    with m have "uuid_seq this m = uuid_seq this n" by simp
    with uniq have "m = n" by (simp add: inj_eq)
    with n le show False by simp
  qed
  from ov old have "superseded this w w' (userId p)"
    by (rule only_valid_supersedes)
  with ov inv' show ?thesis
    by (simp add: rotated_def uid)
qed

lemma logout_supersedes:
  assumes ov: "only_valid this w' uid None"
  shows "superseded this w w' uid"
  unfolding superseded_def
proof (intro ballI allI impI)
  fix u accessToken
  assume d: "decoded_userId this accessToken = uid"
  show "\<exists>e. refreshToken this accessToken (user_refreshToken u) w' = (Inl e, w')"
  proof (cases "user_refreshToken u")
    case None
    then show ?thesis by (simp add: refreshToken_def)
  next
    case (Some r)
    with ov d show ?thesis unfolding only_valid_def by (metis option.distinct(1))
  qed
qed

lemma serial_uuid_inj: "inj serial_uuid"
proof (rule injI)
  fix a b
  assume "serial_uuid a = serial_uuid b"
  then have "length (replicate a (CHR ''1'')) = length (replicate b (CHR ''1''))"
    by (simp add: serial_uuid_def)
  then show "a = b" by simp
qed

lemma rotating_roundtrip: "sign_decode_roundtrip (jwtService rotating)"
  by (simp add: sign_decode_roundtrip_def rotating_def demo_def demo_sign_def demo_decode_def)

lemma rotating_tokens_drawn: "tokens_drawn rotating rotating_world"
proof -
  have "''r1'' = serial_uuid (Suc 0)"
    by (simp add: serial_uuid_def)
  then have "\<exists>n < Suc (Suc 0). ''r1'' = serial_uuid n"
    by blast
  then show ?thesis
    by (simp add: tokens_drawn_def rotating_world_def rotating_def ann_def)
qed

lemmas rotating_defs = rotating_def rotating_world_def serial_uuid_def demo_defs

lemma rotating_silentLogin:
  "silentLogin rotating ''ann.current'' rotating_world
     = (Inr \<lparr>pair_accessToken = ''ann.1700000000'', pair_refreshToken = ''r11''\<rparr>,
        rotating_world\<lparr>db := [ann\<lparr>user_refreshToken := Some ''r11''\<rparr>],
                       uuid_calls := Suc (Suc (Suc 0))\<rparr>)"
  by (simp add: silentLogin_def verifyAccessToken_def uuidv4_def getAccessToken_def rotating_defs)

lemma rotating_login:
  "login rotating ''google.ann'' Google rotating_world
     = (Inr \<lparr>pair_accessToken = ''ann.1700000000'', pair_refreshToken = ''r11''\<rparr>,
        rotating_world\<lparr>db := [ann\<lparr>user_refreshToken := Some ''r11''\<rparr>],
                       uuid_calls := Suc (Suc (Suc 0))\<rparr>)"
  by (simp add: login_def verifyIdToken_def uuidv4_def getAccessToken_def rotating_defs)

lemma rotating_register:
  "register rotating bob_claim rotating_world
     = (Inr \<lparr>pair_accessToken = ''bob.1700000000'', pair_refreshToken = ''r11''\<rparr>,
        rotating_world\<lparr>db := [ann, bob\<lparr>user_refreshToken := Some ''r11''\<rparr>],
                       uuid_calls := Suc (Suc (Suc 0))\<rparr>)"
  by (simp add: register_def uuidv4_def getAccessToken_def rotating_defs)

lemma rotating_refreshToken:
  "refreshToken rotating (Some ''ann.expired'') (Some ''r1'') rotating_world
     = (Inr (Some \<lparr>pair_accessToken = ''ann.1700000000'', pair_refreshToken = ''r11''\<rparr>),
        rotating_world\<lparr>db := [ann\<lparr>user_refreshToken := Some ''r11''\<rparr>],
                       uuid_calls := Suc (Suc (Suc 0))\<rparr>)"
  by (simp add: refreshToken_def uuidv4_def getAccessToken_def rotating_defs)

lemma rotating_logout:
  "logout rotating ''ann.current'' rotating_world
     = (Inr (), rotating_world\<lparr>db := [ann\<lparr>user_refreshToken := None\<rparr>]\<rparr>)"
  by (simp add: logout_def verifyAccessToken_def rotating_defs)

text \<open>
  C5. Over the store the specification describes, with a \<open>uuidv4\<close> that never returns
  a value twice, a JWT library whose \<open>decode\<close> returns the claims that were signed,
  and a collection whose stored refresh tokens were all drawn earlier (which every
  operation, successful or not, keeps true): after a successful \<open>silentLogin\<close>,
  \<open>login\<close>, \<open>register\<close> or \<open>refreshToken\<close>, every record of the user the issued
  access token names stores exactly the returned refresh token, an exchange for that
  user presenting any other value fails, and in particular an exchange presenting what
  that user stored before the operation fails; after \<open>logout\<close> the user's records
  store no refresh token and an exchange presenting the pre-logout value fails.
\<close>

theorem rotation_supersedes_stored_refresh_token:
  assumes us: "userService this = spec_UserService new_id"
    and rt: "sign_decode_roundtrip (jwtService this)"
    and uniq: "inj (uuid_seq this)"
    and inv: "tokens_drawn this w"
  shows
    "(silentLogin this accessToken w = (Inr pair1, w1) \<longrightarrow> rotated this w w1 pair1)
     \<and> (login this idToken provider w = (Inr pair2, w2) \<longrightarrow> rotated this w w2 pair2)
     \<and> (register this claim w = (Inr pair3, w3) \<longrightarrow> rotated this w w3 pair3)
     \<and> (refreshToken this presented refreshTok w = (Inr (Some pair4), w4) \<longrightarrow>
          rotated this w w4 pair4)
     \<and> (verifyAccessToken this accessToken' = Inr p \<longrightarrow>
        logout this accessToken' w = (Inr (), w5) \<longrightarrow>
          only_valid this w5 (userId p) None \<and> superseded this w w5 (userId p))
     \<and> tokens_drawn this (snd (silentLogin this accessToken w))
     \<and> tokens_drawn this (snd (login this idToken provider w))
     \<and> tokens_drawn this (snd (register this claim w))
     \<and> tokens_drawn this (snd (refreshToken this presented refreshTok w))
     \<and> tokens_drawn this (snd (logout this accessToken' w))"
proof (intro conjI impI)
  assume ok: "silentLogin this accessToken w = (Inr pair1, w1)"
  have inv': "tokens_drawn this w1"
    using silentLogin_tokens_drawn [OF us inv, of accessToken] by (simp add: ok)
  from ok show "rotated this w w1 pair1"
  proof (rule silentLogin_rotation)
    fix p' wx
    assume "getAccessToken this wx p' = Inr (pair_accessToken pair1)"
      and "saveRefreshToken (userService this) (userId p') (Some (pair_refreshToken pair1)) (db w)
             = (Inr (), db w1)"
      and "pair_refreshToken pair1 = uuid_seq this (uuid_calls w)"
    then show ?thesis
      by (rule rotatedI [OF us rt uniq inv inv']) simp
  qed
next
  assume ok: "register this claim w = (Inr pair3, w3)"
  have inv': "tokens_drawn this w3"
    using register_tokens_drawn [OF us inv, of claim] by (simp add: ok)
  from ok show "rotated this w w3 pair3"
  proof (rule register_rotation)
    fix p' wx d0
    assume "getAccessToken this wx p' = Inr (pair_accessToken pair3)"
      and "saveRefreshToken (userService this) (userId p') (Some (pair_refreshToken pair3)) d0
             = (Inr (), db w3)"
      and "pair_refreshToken pair3 = uuid_seq this (uuid_calls w)"
    then show ?thesis
      by (rule rotatedI [OF us rt uniq inv inv']) simp
  qed
next
  assume ok: "login this idToken provider w = (Inr pair2, w2)"
  have inv': "tokens_drawn this w2"
    using login_tokens_drawn [OF us inv, of idToken provider] by (simp add: ok)
  from ok show "rotated this w w2 pair2"
  proof (cases rule: login_rotation)
    case (direct p' wx)
    then show ?thesis
      by (rule rotatedI [OF us rt uniq inv inv']) simp
  next
    case (registered claim' wr)
    from registered(1) show ?thesis
    proof (rule register_rotation)
      fix p' wx d0
      assume "getAccessToken this wx p' = Inr (pair_accessToken pair2)"
        and "saveRefreshToken (userService this) (userId p') (Some (pair_refreshToken pair2)) d0
               = (Inr (), db w2)"
        and "pair_refreshToken pair2 = uuid_seq this (uuid_calls wr)"
      then show ?thesis
        by (rule rotatedI [OF us rt uniq inv inv']) (rule registered(2))
    qed
  qed
next
  assume ok: "refreshToken this presented refreshTok w = (Inr (Some pair4), w4)"
  have inv': "tokens_drawn this w4"
    using refreshToken_tokens_drawn [OF us inv, of presented refreshTok] by (simp add: ok)
  from us ok show "rotated this w w4 pair4"
  proof (rule refreshToken_rotation)
    fix p' wx
    assume "getAccessToken this wx p' = Inr (pair_accessToken pair4)"
      and "saveRefreshToken (userService this) (userId p') (Some (pair_refreshToken pair4)) (db w)
             = (Inr (), db w4)"
      and "pair_refreshToken pair4 = uuid_seq this (uuid_calls w)"
    then show ?thesis
      by (rule rotatedI [OF us rt uniq inv inv']) simp
  qed
next
  assume v: "verifyAccessToken this accessToken' = Inr p"
    and l: "logout this accessToken' w = (Inr (), w5)"
  from l v have "saveRefreshToken (userService this) (userId p) None (db w) = (Inr (), db w5)"
    by (auto simp: logout_def split: prod.splits)
  then show ov: "only_valid this w5 (userId p) None"
    by (rule spec_save_only_valid [OF us])
  then show "superseded this w w5 (userId p)"
    by (rule logout_supersedes)
next
  show "tokens_drawn this (snd (silentLogin this accessToken w))"
    using us inv by (rule silentLogin_tokens_drawn)
  show "tokens_drawn this (snd (login this idToken provider w))"
    using us inv by (rule login_tokens_drawn)
  show "tokens_drawn this (snd (register this claim w))"
    using us inv by (rule register_tokens_drawn)
  show "tokens_drawn this (snd (refreshToken this presented refreshTok w))"
    using us inv by (rule refreshToken_tokens_drawn)
  show "tokens_drawn this (snd (logout this accessToken' w))"
    using us inv by (rule logout_tokens_drawn)
qed

theorem rotation_supersedes_stored_refresh_token_witness:
  "userService rotating = spec_UserService (\<lambda>d. ''u2'')
   \<and> sign_decode_roundtrip (jwtService rotating)
   \<and> inj (uuid_seq rotating)
   \<and> tokens_drawn rotating rotating_world
   \<and> user_refreshToken ann = Some ''r1''
   \<and> fst (silentLogin rotating ''ann.current'' rotating_world)
       = Inr \<lparr>pair_accessToken = ''ann.1700000000'', pair_refreshToken = ''r11''\<rparr>
   \<and> rotated rotating rotating_world (snd (silentLogin rotating ''ann.current'' rotating_world))
       \<lparr>pair_accessToken = ''ann.1700000000'', pair_refreshToken = ''r11''\<rparr>
   \<and> fst (login rotating ''google.ann'' Google rotating_world)
       = Inr \<lparr>pair_accessToken = ''ann.1700000000'', pair_refreshToken = ''r11''\<rparr>
   \<and> rotated rotating rotating_world (snd (login rotating ''google.ann'' Google rotating_world))
       \<lparr>pair_accessToken = ''ann.1700000000'', pair_refreshToken = ''r11''\<rparr>
   \<and> fst (register rotating bob_claim rotating_world)
       = Inr \<lparr>pair_accessToken = ''bob.1700000000'', pair_refreshToken = ''r11''\<rparr>
   \<and> rotated rotating rotating_world (snd (register rotating bob_claim rotating_world))
       \<lparr>pair_accessToken = ''bob.1700000000'', pair_refreshToken = ''r11''\<rparr>
   \<and> fst (refreshToken rotating (Some ''ann.expired'') (Some ''r1'') rotating_world)
       = Inr (Some \<lparr>pair_accessToken = ''ann.1700000000'', pair_refreshToken = ''r11''\<rparr>)
   \<and> rotated rotating rotating_world
       (snd (refreshToken rotating (Some ''ann.expired'') (Some ''r1'') rotating_world))
       \<lparr>pair_accessToken = ''ann.1700000000'', pair_refreshToken = ''r11''\<rparr>
   \<and> refreshToken rotating (Some ''ann.expired'') (Some ''r1'')
         (snd (refreshToken rotating (Some ''ann.expired'') (Some ''r1'') rotating_world))
       = (Inl NotFound,
          snd (refreshToken rotating (Some ''ann.expired'') (Some ''r1'') rotating_world))
   \<and> refreshToken rotating (Some ''ann.expired'') (Some ''r1'')
         (snd (silentLogin rotating ''ann.current'' rotating_world))
       = (Inl NotFound, snd (silentLogin rotating ''ann.current'' rotating_world))
   \<and> verifyAccessToken rotating ''ann.current'' = Inr (ann_claims 1699999900)
   \<and> fst (logout rotating ''ann.current'' rotating_world) = Inr ()
   \<and> only_valid rotating (snd (logout rotating ''ann.current'' rotating_world)) (Some ''u1'') None
   \<and> superseded rotating rotating_world (snd (logout rotating ''ann.current'' rotating_world))
       (Some ''u1'')
   \<and> refreshToken rotating (Some ''ann.current'') (Some ''r1'')
         (snd (logout rotating ''ann.current'' rotating_world))
       = (Inl NotFound, snd (logout rotating ''ann.current'' rotating_world))
   \<and> tokens_drawn rotating (snd (logout rotating ''ann.current'' rotating_world))"
proof -
  let ?annp = "\<lparr>pair_accessToken = ''ann.1700000000'', pair_refreshToken = ''r11''\<rparr>"
  let ?bobp = "\<lparr>pair_accessToken = ''bob.1700000000'', pair_refreshToken = ''r11''\<rparr>"
  let ?wa = "rotating_world\<lparr>db := [ann\<lparr>user_refreshToken := Some ''r11''\<rparr>],
                            uuid_calls := Suc (Suc (Suc 0))\<rparr>"
  let ?wb = "rotating_world\<lparr>db := [ann, bob\<lparr>user_refreshToken := Some ''r11''\<rparr>],
                            uuid_calls := Suc (Suc (Suc 0))\<rparr>"
  let ?wl = "rotating_world\<lparr>db := [ann\<lparr>user_refreshToken := None\<rparr>]\<rparr>"
  have us: "userService rotating = spec_UserService (\<lambda>d. ''u2'')"
    by (simp add: rotating_def demo_def)
  have uniq: "inj (uuid_seq rotating)"
    using serial_uuid_inj by (simp add: rotating_def)
  have v: "verifyAccessToken rotating ''ann.current'' = Inr (ann_claims 1699999900)"
    by (simp add: verifyAccessToken_def rotating_def demo_def demo_verify_def demo_config_def)
  have old: "refreshToken rotating (Some ''ann.expired'') (Some ''r1'') ?wa = (Inl NotFound, ?wa)"
    by (simp add: refreshToken_def rotating_defs)
  have out: "refreshToken rotating (Some ''ann.current'') (Some ''r1'') ?wl = (Inl NotFound, ?wl)"
    by (simp add: refreshToken_def rotating_defs)
  have a: "user_refreshToken ann = Some ''r1''"
    by (simp add: ann_def)
  have u: "userId (ann_claims 1699999900) = Some ''u1''"
    by (simp add: ann_claims_def)
  show ?thesis
    using rotation_supersedes_stored_refresh_token
        [OF us rotating_roundtrip uniq rotating_tokens_drawn,
         where accessToken = "''ann.current''" and ?pair1.0 = ?annp and ?w1.0 = ?wa
          and idToken = "''google.ann''" and provider = Google and ?pair2.0 = ?annp and ?w2.0 = ?wa
          and claim = bob_claim and ?pair3.0 = ?bobp and ?w3.0 = ?wb
          and presented = "Some ''ann.expired''" and refreshTok = "Some ''r1''"
          and ?pair4.0 = ?annp and ?w4.0 = ?wa
          and accessToken' = "''ann.current''" and p = "ann_claims 1699999900" and ?w5.0 = ?wl]
      us rotating_roundtrip uniq rotating_tokens_drawn v old out a u
      rotating_silentLogin rotating_login rotating_register rotating_refreshToken rotating_logout
    by simp
qed

end
